theory Spec2Isabelle
  imports Complex_Main "HOL-Library.Word"
begin

section \<open>Values the sketch handles\<close>

text \<open>
  The sketch \<^verbatim>\<open>src/jennytest.cpp\<close> polls a DHT sensor and a digital pin and republishes
  the readings as HomeKit characteristics. Everything it calls (the HomeKit server, the
  sensor driver, the pins, the serial console) lives in libraries; here each such call is
  an event in a trace, and the value a call returns comes from an environment record.
\<close>

subsection \<open>Floating-point values\<close>

text \<open>
  A value of the C types \<^verbatim>\<open>float\<close> and \<^verbatim>\<open>double\<close> (IEEE 754 binary32 and
  binary64): the not-a-number, an infinity with its sign, or a finite value given by its
  sign \<open>s\<close>, mantissa \<open>m\<close> and exponent \<open>e\<close>, which stands for
  \<open>(-1)\<^sup>s * m * 2\<^sup>e\<close>. A zero keeps its sign. The payload bits of a not-a-number are
  not modelled; the sketch only ever tests \<^verbatim>\<open>isnan\<close> on one.
\<close>

datatype cfloat = NaN | Inf bool | Fin bool nat int

fun isnan :: "cfloat \<Rightarrow> bool" where
  "isnan NaN = True"
| "isnan (Inf s) = False"
| "isnan (Fin s m e) = False"

text \<open>The number a finite value stands for.\<close>

fun valof :: "cfloat \<Rightarrow> real" where
  "valof (Fin s m e) =
     (if s then - 1 else 1) * (if 0 \<le> e then real m * 2 ^ nat e else real m / 2 ^ nat (- e))"
| "valof x = 0"

text \<open>
  The number of bits of a mantissa, and the canonical form of a finite value: trailing
  zero bits of the mantissa go into the exponent, and zero has exponent 0.
\<close>

fun bit_length :: "nat \<Rightarrow> nat" where
  "bit_length n = (if n = 0 then 0 else Suc (bit_length (n div 2)))"

fun trim :: "nat \<Rightarrow> int \<Rightarrow> nat \<times> int" where
  "trim m e = (if m = 0 then (0, 0) else if even m then trim (m div 2) (e + 1) else (m, e))"

declare bit_length.simps [simp del] trim.simps [simp del]

fun canon :: "cfloat \<Rightarrow> cfloat" where
  "canon (Fin s m e) = (case trim m e of (m', e') \<Rightarrow> Fin s m' e')"
| "canon x = x"

text \<open>
  A single-precision value in canonical form: a finite one has an odd mantissa of at most
  24 bits, an exponent of at least -149 (the weight of the last bit of a subnormal) and a
  magnitude below \<open>2 ^ 128\<close>.
\<close>

definition is_binary32 :: "cfloat \<Rightarrow> bool" where
  "is_binary32 x =
     (case x of
        Fin s m e \<Rightarrow>
          (m = 0 \<and> e = 0)
          \<or> (odd m \<and> m < 2 ^ 24 \<and> - 149 \<le> e \<and> int (bit_length m) + e \<le> 128)
      | _ \<Rightarrow> True)"

text \<open>
  Rounding to nearest, ties to even, the default of IEEE 754. \<open>rne m k\<close> drops the
  \<open>k\<close> low bits of \<open>m\<close>. \<open>round_fp p emin emax\<close> rounds a finite magnitude to a
  format with \<open>p\<close> mantissa bits whose last subnormal bit weighs \<open>2 ^ emin\<close> and whose
  finite values lie below \<open>2 ^ (emax + 1)\<close>: it drops as many bits as exceed the
  precision or lie below \<open>2 ^ emin\<close>, and overflows to the infinity.
\<close>

definition rne :: "nat \<Rightarrow> nat \<Rightarrow> nat" where
  "rne m k =
     (if k = 0 then m
      else if 2 ^ (k - 1) < m mod 2 ^ k \<or> (m mod 2 ^ k = 2 ^ (k - 1) \<and> odd (m div 2 ^ k))
      then m div 2 ^ k + 1
      else m div 2 ^ k)"

definition drop_bits :: "nat \<Rightarrow> int \<Rightarrow> int \<Rightarrow> nat \<times> int" where
  "drop_bits m e k = (if k \<le> 0 then (m, e) else (rne m (nat k), e + k))"

fun pack :: "int \<Rightarrow> bool \<Rightarrow> nat \<times> int \<Rightarrow> cfloat" where
  "pack emax s (m, e) = (if emax + 1 < int (bit_length m) + e then Inf s else Fin s m e)"

definition round_fp :: "nat \<Rightarrow> int \<Rightarrow> int \<Rightarrow> bool \<Rightarrow> nat \<Rightarrow> int \<Rightarrow> cfloat" where
  "round_fp p emin emax s m e =
     pack emax s (drop_bits m e (max (int (bit_length m) - int p) (emin - e)))"

text \<open>
  Subtraction in double precision, \<^verbatim>\<open>a - b\<close> on two \<^verbatim>\<open>double\<close> operands: the exact
  difference of two finite values, rounded to binary64. An exact zero is positive unless
  the operands are -0 and +0.
\<close>

definition signed :: "bool \<Rightarrow> nat \<Rightarrow> int" where
  "signed s m = (if s then - int m else int m)"

definition round_double :: "bool \<Rightarrow> int \<Rightarrow> int \<Rightarrow> cfloat" where
  "round_double zs d e =
     (if d = 0 then Fin zs 0 0 else round_fp 53 (- 1074) 1023 (d < 0) (nat \<bar>d\<bar>) e)"

fun dminus :: "cfloat \<Rightarrow> cfloat \<Rightarrow> cfloat" where
  "dminus NaN b = NaN"
| "dminus a NaN = NaN"
| "dminus (Inf s) (Inf s') = (if s = s' then NaN else Inf s)"
| "dminus (Inf s) (Fin s' m e) = Inf s"
| "dminus (Fin s m e) (Inf s') = Inf (\<not> s')"
| "dminus (Fin sa ma ea) (Fin sb mb eb) =
     round_double (sa \<and> \<not> sb \<and> ma = 0)
       (signed sa ma * 2 ^ nat (ea - min ea eb) - signed sb mb * 2 ^ nat (eb - min ea eb))
       (min ea eb)"

text \<open>
  The conversion of a \<^verbatim>\<open>double\<close> to \<^verbatim>\<open>float\<close> that an assignment to a
  \<^verbatim>\<open>float\<close> variable performs: the value rounded to binary32, in canonical form.
\<close>

fun to_float :: "cfloat \<Rightarrow> cfloat" where
  "to_float (Fin s m e) = canon (round_fp 24 (- 149) 127 s m e)"
| "to_float x = x"

text \<open>
  \<^verbatim>\<open>float temp = a - b;\<close> with a \<^verbatim>\<open>float\<close> \<open>a\<close> and a \<^verbatim>\<open>double\<close> \<open>b\<close>, as in
  line 117: \<open>a\<close> is converted to \<^verbatim>\<open>double\<close>, which changes no value, the subtraction
  is done in double precision, and the assignment rounds the result to single precision.
\<close>

definition fminus :: "cfloat \<Rightarrow> cfloat \<Rightarrow> cfloat" where
  "fminus a b = to_float (dminus a b)"

text \<open>The floating-point value of an integer literal such as \<^verbatim>\<open>3.0\<close>.\<close>

definition Num :: "int \<Rightarrow> cfloat" where
  "Num n = canon (Fin (n < 0) (nat \<bar>n\<bar>) 0)"

subsection \<open>Pins, characteristics and events\<close>

text \<open>The pins the sketch names, and the two levels of a digital output.\<close>

datatype pin = D0 | D1 | D3

datatype pin_level = LOW | HIGH

definition OCCUPANCY_SENSOR_PIN :: pin where
  "OCCUPANCY_SENSOR_PIN = D1"

text \<open>
  The three characteristics declared \<^verbatim>\<open>extern "C"\<close> (lines 79 to 81), and the
  \<^verbatim>\<open>value\<close> member of one: the sketch writes its \<^verbatim>\<open>float_value\<close> or its
  \<^verbatim>\<open>bool_value\<close>.
\<close>

datatype characteristic = cha_occupancy_detected | cha_temperature | cha_humidity

datatype homekit_value = FloatValue cfloat | BoolValue bool

text \<open>The arguments of a \<^verbatim>\<open>LOG_D\<close> line, kept beside its format string unrendered.\<close>

datatype log_arg = ArgFloat cfloat | ArgInt int | ArgU32 "32 word" | ArgStr string

text \<open>
  Every call that leaves the sketch and every store to something that outlives the call:
  a characteristic's value or one of the two deadlines.
\<close>

datatype event =
    Call_arduino_homekit_loop
  | Call_millis
  | Store_next_report_millis "32 word"
  | Store_next_heap_millis "32 word"
  | Call_delay nat
  | Call_getTemperature
  | Call_getHumidity
  | Call_digitalRead pin
  | Call_digitalWrite pin pin_level
  | Serial_println string
  | Write_value characteristic homekit_value
  | Notify characteristic homekit_value
  | Call_connected_clients_count
  | Call_getFreeHeap
  | LOG_D string "log_arg list"

section \<open>Environment and state\<close>

text \<open>
  What the outside world answers during one pass of \<^verbatim>\<open>loop()\<close>: the millisecond
  clock (a \<^verbatim>\<open>uint32_t\<close>), the two sensor readings, the level of the occupancy pin as
  the \<^verbatim>\<open>int\<close> that \<^verbatim>\<open>digitalRead\<close> returns, the number of connected clients and
  the free heap.
\<close>

record env =
  millis :: "32 word"
  getTemperature :: cfloat
  getHumidity :: cfloat
  digitalRead :: int
  connected_clients_count :: int
  getFreeHeap :: "32 word"

text \<open>
  The two file-scope deadlines (lines 83 and 84), the values of the characteristics, the
  level driven on each output pin, and the trace of events so far.
\<close>

record state =
  next_heap_millis :: "32 word"
  next_report_millis :: "32 word"
  cha_value :: "characteristic \<Rightarrow> homekit_value"
  pin_out :: "pin \<Rightarrow> pin_level"
  trace :: "event list"

text \<open>
  The state when \<^verbatim>\<open>loop()\<close> first runs: both deadlines are initialised to 0; the
  characteristics are defined in another file, so their first values are parameters, and
  so are the pin levels.
\<close>

definition initial_state :: "(characteristic \<Rightarrow> homekit_value) \<Rightarrow> (pin \<Rightarrow> pin_level) \<Rightarrow> state" where
  "initial_state vals pins =
     \<lparr>next_heap_millis = 0, next_report_millis = 0, cha_value = vals, pin_out = pins,
      trace = []\<rparr>"

section \<open>Constants\<close>

definition REPORTING_TIME_MS :: "32 word" where
  "REPORTING_TIME_MS = 2 * 1000"

definition SHOW_HEAP_MS :: "32 word" where
  "SHOW_HEAP_MS = 10 * 1000"

section \<open>Primitive effects\<close>

definition emit :: "event \<Rightarrow> state \<Rightarrow> state" where
  "emit ev s = s\<lparr>trace := trace s @ [ev]\<rparr>"

definition digitalWrite :: "pin \<Rightarrow> pin_level \<Rightarrow> state \<Rightarrow> state" where
  "digitalWrite p l s = emit (Call_digitalWrite p l) (s\<lparr>pin_out := (pin_out s)(p := l)\<rparr>)"

definition write_value :: "characteristic \<Rightarrow> homekit_value \<Rightarrow> state \<Rightarrow> state" where
  "write_value c v s = emit (Write_value c v) (s\<lparr>cha_value := (cha_value s)(c := v)\<rparr>)"

definition store_next_report_millis :: "32 word \<Rightarrow> state \<Rightarrow> state" where
  "store_next_report_millis w s = emit (Store_next_report_millis w) (s\<lparr>next_report_millis := w\<rparr>)"

definition store_next_heap_millis :: "32 word \<Rightarrow> state \<Rightarrow> state" where
  "store_next_heap_millis w s = emit (Store_next_heap_millis w) (s\<lparr>next_heap_millis := w\<rparr>)"

text \<open>
  \<^verbatim>\<open>homekit_characteristic_notify(&c, c.value)\<close>: the payload is the value the
  characteristic holds at the call.
\<close>

definition homekit_characteristic_notify :: "characteristic \<Rightarrow> state \<Rightarrow> state" where
  "homekit_characteristic_notify c s = emit (Notify c (cha_value s c)) s"

section \<open>The report path\<close>

text \<open>
  The three locals that \<^verbatim>\<open>my_homekit_report\<close> computes first (lines 117 to 119), as
  the reading of one report.
\<close>

record SampleReading =
  temperatureC :: cfloat
  humidityPct :: cfloat
  occupied :: bool

definition sample :: "env \<Rightarrow> SampleReading" where
  "sample e =
     \<lparr>temperatureC = fminus (getTemperature e) (Num 3),
      humidityPct = getHumidity e,
      occupied = (digitalRead e \<noteq> 0)\<rparr>"

definition my_homekit_report :: "env \<Rightarrow> state \<Rightarrow> state" where
  "my_homekit_report e s0 =
     (let temp = fminus (getTemperature e) (Num 3);
          s1 = emit Call_getTemperature s0;
          hum = getHumidity e;
          s2 = emit Call_getHumidity s1;
          occupancy_sensor_value = (digitalRead e \<noteq> 0);
          s3 = emit (Call_digitalRead OCCUPANCY_SENSOR_PIN) s2;
          s4 = digitalWrite D0 (if occupancy_sensor_value then HIGH else LOW) s3;
          s5 = (if isnan hum \<or> isnan temp
                then emit (Serial_println ''Failed to read from DHT sensor!'') s4
                else
                  (let a = write_value cha_temperature (FloatValue temp) s4;
                       b = homekit_characteristic_notify cha_temperature a;
                       c = write_value cha_humidity (FloatValue hum) b;
                       d = homekit_characteristic_notify cha_humidity c;
                       f = emit (LOG_D ''Temp (C): %.1f'' [ArgFloat temp]) d
                   in emit (LOG_D ''Hum (percent): %.0f'' [ArgFloat hum]) f));
          s6 = write_value cha_occupancy_detected (BoolValue occupancy_sensor_value) s5;
          s7 = homekit_characteristic_notify cha_occupancy_detected s6
      in emit (LOG_D ''Occupancy sensor is: %s''
                 [ArgStr (if occupancy_sensor_value then ''active'' else ''inactive'')]) s7)"

section \<open>The tick\<close>

definition my_homekit_loop :: "env \<Rightarrow> state \<Rightarrow> state" where
  "my_homekit_loop e s0 =
     (let s1 = emit Call_arduino_homekit_loop s0;
          t = millis e;
          s2 = emit Call_millis s1;
          s3 = (if t > next_report_millis s2
                then my_homekit_report e (store_next_report_millis (t + REPORTING_TIME_MS) s2)
                else s2)
      in if t > next_heap_millis s3
         then
           (let connected_clients = connected_clients_count e;
                a = emit Call_connected_clients_count s3;
                b = store_next_heap_millis (t + 5 * 1000) a;
                c = emit Call_getFreeHeap b
            in emit (LOG_D ''Free heap: %d, HomeKit clients: %d''
                       [ArgU32 (getFreeHeap e), ArgInt connected_clients]) c)
         else s3)"

definition loop :: "env \<Rightarrow> state \<Rightarrow> state" where
  "loop e s = emit (Call_delay 10) (my_homekit_loop e s)"


section \<open>Observing a tick\<close>

text \<open>
  The events one tick adds to the trace, and the shapes of events the properties speak
  about: an event touches a characteristic when it writes its value or notifies it.
\<close>

definition events_since :: "state \<Rightarrow> state \<Rightarrow> event list" where
  "events_since s s' = drop (length (trace s)) (trace s')"

definition tick_events :: "env \<Rightarrow> state \<Rightarrow> event list" where
  "tick_events e s = events_since s (my_homekit_loop e s)"

fun touches :: "characteristic \<Rightarrow> event \<Rightarrow> bool" where
  "touches c (Write_value c' v) = (c = c')"
| "touches c (Notify c' v) = (c = c')"
| "touches c _ = False"

fun is_notify :: "event \<Rightarrow> bool" where
  "is_notify (Notify c v) = True"
| "is_notify _ = False"

fun is_sensor_read :: "event \<Rightarrow> bool" where
  "is_sensor_read Call_getTemperature = True"
| "is_sensor_read Call_getHumidity = True"
| "is_sensor_read _ = False"

text \<open>
  The events of one run of the report path, written out as a list in program order: the
  two sensor reads, the pin read and the pin write, then either the failure line or the
  two environmental characteristics, then the occupancy characteristic. Lemma
  \<open>report_trace\<close> below proves that \<open>my_homekit_report\<close> appends exactly this list.
\<close>

definition environmental_events :: "SampleReading \<Rightarrow> event list" where
  "environmental_events r =
     (if isnan (humidityPct r) \<or> isnan (temperatureC r)
      then [Serial_println ''Failed to read from DHT sensor!'']
      else [Write_value cha_temperature (FloatValue (temperatureC r)),
            Notify cha_temperature (FloatValue (temperatureC r)),
            Write_value cha_humidity (FloatValue (humidityPct r)),
            Notify cha_humidity (FloatValue (humidityPct r)),
            LOG_D ''Temp (C): %.1f'' [ArgFloat (temperatureC r)],
            LOG_D ''Hum (percent): %.0f'' [ArgFloat (humidityPct r)]])"

definition occupancy_events :: "bool \<Rightarrow> event list" where
  "occupancy_events b =
     [Write_value cha_occupancy_detected (BoolValue b),
      Notify cha_occupancy_detected (BoolValue b),
      LOG_D ''Occupancy sensor is: %s'' [ArgStr (if b then ''active'' else ''inactive'')]]"

definition report_events :: "env \<Rightarrow> event list" where
  "report_events e =
     [Call_getTemperature, Call_getHumidity, Call_digitalRead OCCUPANCY_SENSOR_PIN,
      Call_digitalWrite D0 (if occupied (sample e) then HIGH else LOW)]
     @ environmental_events (sample e) @ occupancy_events (occupied (sample e))"

text \<open>
  The events of the diagnostic block (lines 107 to 110); lemma \<open>loop_trace\<close> proves
  that \<open>my_homekit_loop\<close> appends them when the diagnostic deadline has passed.
\<close>

definition heap_events :: "env \<Rightarrow> event list" where
  "heap_events e =
     [Call_connected_clients_count, Store_next_heap_millis (millis e + 5 * 1000),
      Call_getFreeHeap,
      LOG_D ''Free heap: %d, HomeKit clients: %d''
        [ArgU32 (getFreeHeap e), ArgInt (connected_clients_count e)]]"

text \<open>Writes of a characteristic's value, and calls that read or drive a pin.\<close>

fun is_write :: "event \<Rightarrow> bool" where
  "is_write (Write_value c v) = True"
| "is_write _ = False"

fun is_pin_access :: "event \<Rightarrow> bool" where
  "is_pin_access (Call_digitalRead p) = True"
| "is_pin_access (Call_digitalWrite p l) = True"
| "is_pin_access _ = False"

text \<open>The line the skip branch prints (line 124).\<close>

definition failure_line :: event where
  "failure_line = Serial_println ''Failed to read from DHT sensor!''"

text \<open>
  Counting reports: every run of the report path starts with the one call of
  \<^verbatim>\<open>dht.getTemperature()\<close>. The clock values at which the report path ran during a
  sequence of ticks, in order and with multiplicity.
\<close>

fun starts_report :: "event \<Rightarrow> bool" where
  "starts_report Call_getTemperature = True"
| "starts_report _ = False"

definition reports_in :: "event list \<Rightarrow> nat" where
  "reports_in evs = length (filter starts_report evs)"

fun report_times :: "env list \<Rightarrow> state \<Rightarrow> 32 word list" where
  "report_times [] s = []"
| "report_times (e # es) s =
     replicate (reports_in (tick_events e s)) (millis e) @ report_times es (loop e s)"

text \<open>
  Two clock values a full report interval apart, and a clock value to which the report
  interval can be added within 32 bits.
\<close>

definition spaced :: "32 word \<Rightarrow> 32 word \<Rightarrow> bool" where
  "spaced a b = (unat a + unat REPORTING_TIME_MS \<le> unat b)"

definition no_wrap :: "32 word \<Rightarrow> bool" where
  "no_wrap t = (unat t + unat REPORTING_TIME_MS < 2 ^ 32)"

text \<open>The diagnostic log line, recognised by its format string.\<close>

fun is_heap_log :: "event \<Rightarrow> bool" where
  "is_heap_log (LOG_D f args) = (f = ''Free heap: %d, HomeKit clients: %d'')"
| "is_heap_log _ = False"

text \<open>
  The values of the characteristics after one run of the report path, from the values
  before it; lemma \<open>report_cha_value\<close> proves that \<open>my_homekit_report\<close> leaves
  exactly these.
\<close>

definition report_values :: "env \<Rightarrow> (characteristic \<Rightarrow> homekit_value) \<Rightarrow> characteristic \<Rightarrow> homekit_value" where
  "report_values e vals =
     (let r = sample e;
          vals' = (if isnan (humidityPct r) \<or> isnan (temperatureC r) then vals
                   else vals(cha_temperature := FloatValue (temperatureC r),
                             cha_humidity := FloatValue (humidityPct r)))
      in vals'(cha_occupancy_detected := BoolValue (occupied r)))"

section \<open>Concrete inputs\<close>

text \<open>
  A state at start-up and an environment for one tick, for evaluating the sketch on
  explicit inputs.
\<close>

definition example_values :: "characteristic \<Rightarrow> homekit_value" where
  "example_values c =
     (case c of cha_occupancy_detected \<Rightarrow> BoolValue False
      | cha_temperature \<Rightarrow> FloatValue (Num 0)
      | cha_humidity \<Rightarrow> FloatValue (Num 0))"

definition example_pins :: "pin \<Rightarrow> pin_level" where
  "example_pins p = LOW"

definition boot :: state where
  "boot = initial_state example_values example_pins"

definition env_at :: "32 word \<Rightarrow> cfloat \<Rightarrow> cfloat \<Rightarrow> int \<Rightarrow> env" where
  "env_at t temp hum p =
     \<lparr>millis = t, getTemperature = temp, getHumidity = hum, digitalRead = p,
      connected_clients_count = 1, getFreeHeap = 40000\<rparr>"

text \<open>
  Three ticks early in a run, and two ticks 10 ms apart shortly before the clock reaches
  \<open>2 ^ 32\<close>.
\<close>

definition three_ticks :: "env list" where
  "three_ticks =
     [env_at 1 (Num 21) (Num 40) 1, env_at 1500 (Num 21) (Num 40) 1,
      env_at 2002 (Num 21) (Num 40) 1]"

definition late_ticks :: "env list" where
  "late_ticks =
     [env_at 4294966296 (Num 21) (Num 40) 1, env_at 4294966306 (Num 21) (Num 40) 1]"

section \<open>Floating-point facts\<close>

text \<open>
  Subtracting an integer constant never makes or loses a not-a-number, and an integer
  reading minus 3 is exact as long as the difference fits the 24 bits of a
  single-precision mantissa.
\<close>

lemma bit_length_le: "n < 2 ^ w \<Longrightarrow> bit_length n \<le> w"
proof (induction n arbitrary: w rule: bit_length.induct)
  case (1 n)
  show ?case
  proof (cases "n = 0")
    case True
    then show ?thesis by (simp add: bit_length.simps)
  next
    case False
    with "1.prems" obtain v where w: "w = Suc v" by (cases w) auto
    with "1.prems" have "n div 2 < 2 ^ v" by auto
    with "1.IH" [OF False] have "bit_length (n div 2) \<le> v" by simp
    with False w show ?thesis by (simp add: bit_length.simps [of n])
  qed
qed


lemma trim_value:
  "trim m e = (m', e') \<Longrightarrow>
     (m \<noteq> 0 \<longrightarrow> e \<le> e') \<and> (m = 0 \<longrightarrow> e' = 0) \<and> m = m' * 2 ^ nat (e' - e)"
proof (induction m e rule: trim.induct)
  case (1 m e)
  show ?case
  proof (cases "m = 0")
    case True
    with "1.prems" show ?thesis by (simp add: trim.simps)
  next
    case nz: False
    show ?thesis
    proof (cases "even m")
      case True
      with nz "1.prems" have t: "trim (m div 2) (e + 1) = (m', e')"
        by (simp add: trim.simps [of m])
      from nz True have "m div 2 \<noteq> 0" by auto
      with "1.IH" [OF nz True t]
      have le: "e + 1 \<le> e'" and v: "m div 2 = m' * 2 ^ nat (e' - (e + 1))"
        by simp_all
      from le have "nat (e' - e) = Suc (nat (e' - (e + 1)))" by simp
      moreover from True have "m = 2 * (m div 2)" by simp
      ultimately show ?thesis using nz le v by simp
    next
      case False
      with nz "1.prems" show ?thesis by (simp add: trim.simps [of m])
    qed
  qed
qed


lemma canon_Fin: "\<exists>m' e'. canon (Fin s m e) = Fin s m' e'"
  by (cases "trim m e") simp


lemma isnan_canon [simp]: "isnan (canon x) = isnan x"
  by (cases x) (auto split: prod.splits)


lemma isnan_round_fp [simp]: "isnan (round_fp p emin emax s m e) = False"
  by (cases "drop_bits m e (max (int (bit_length m) - int p) (emin - e))")
    (simp add: round_fp_def)


lemma isnan_to_float [simp]: "isnan (to_float x) = isnan x"
  by (cases x) simp_all


lemma isnan_Num [simp]: "isnan (Num n) = False"
  using canon_Fin [of "n < 0" "nat \<bar>n\<bar>" 0] by (auto simp add: Num_def)


lemma Num_neq_NaN [simp]: "Num n \<noteq> NaN" "NaN \<noteq> Num n"
  using isnan_Num [of n] by (auto simp del: isnan_Num)


lemma isnan_fminus: "isnan (fminus a (Num n)) = isnan a"
proof -
  obtain m e where n: "Num n = Fin (n < 0) m e"
    using canon_Fin [of "n < 0" "nat \<bar>n\<bar>" 0] by (auto simp add: Num_def)
  show ?thesis
    by (cases a) (simp_all add: fminus_def n round_double_def)
qed


lemma fminus_NaN [simp]: "fminus NaN b = NaN"
  by (simp add: fminus_def)


lemma Num_3: "Num 3 = Fin False 3 0"
  by (simp add: Num_def trim.simps)


lemma Num_decode: "\<exists>m e. Num n = Fin (n < 0) m e \<and> 0 \<le> e \<and> int m * 2 ^ nat e = \<bar>n\<bar>"
proof -
  obtain m e where t: "trim (nat \<bar>n\<bar>) 0 = (m, e)" by (cases "trim (nat \<bar>n\<bar>) 0")
  note tv = trim_value [OF t]
  from tv have "nat \<bar>n\<bar> \<noteq> 0 \<longrightarrow> 0 \<le> e" and "nat \<bar>n\<bar> = 0 \<longrightarrow> e = 0"
    by blast+
  then have e: "0 \<le> e" by (cases "nat \<bar>n\<bar> = 0") blast+
  from tv have "nat \<bar>n\<bar> = m * 2 ^ nat e" by simp
  then have "int (nat \<bar>n\<bar>) = int (m * 2 ^ nat e)" by (rule arg_cong)
  then have v: "int m * 2 ^ nat e = \<bar>n\<bar>" by simp
  have "Num n = Fin (n < 0) m e" by (simp add: Num_def t)
  with e v show ?thesis by blast
qed

lemma signed_abs: "int m * k = \<bar>n\<bar> \<Longrightarrow> signed (n < 0) m * k = n"
  by (simp add: signed_def)

lemma dminus_Num_3: "dminus (Num n) (Num 3) = round_double False (n - 3) 0"
proof -
  obtain m e where n: "Num n = Fin (n < 0) m e" and e: "0 \<le> e"
    and v: "int m * 2 ^ nat e = \<bar>n\<bar>"
    using Num_decode [of n] by blast
  from e have z: "min e 0 = 0" by simp
  have s: "signed (n < 0) m * 2 ^ nat e = n" using v by (rule signed_abs)
  have "\<not> (n < 0 \<and> m = 0)"
  proof
    assume "n < 0 \<and> m = 0"
    with v show False by simp
  qed
  then have ns: "(n < 0 \<and> m = 0) = False" by simp
  have "dminus (Fin (n < 0) m e) (Fin False 3 0) = round_double False (n - 3) 0"
    apply (simp add: z s)
    apply (simp add: signed_def)
    apply (simp only: ns)
    done
  then show ?thesis by (simp only: n Num_3)
qed

lemma fminus_integer_exact:
  assumes "\<bar>n - 3\<bar> < 2 ^ 24"
  shows "fminus (Num n) (Num 3) = Num (n - 3)"
proof (cases "n = 3")
  case True
  then show ?thesis
    by (simp add: fminus_def dminus_Num_3 round_double_def round_fp_def drop_bits_def Num_def
        trim.simps bit_length.simps)
next
  case False
  define S where "S = (n - 3 < 0)"
  define M where "M = nat \<bar>n - 3\<bar>"
  from assms have "M < 2 ^ 24" by (simp add: M_def nat_less_iff)
  then have b: "bit_length M \<le> 24" by (rule bit_length_le)
  have r53: "round_fp 53 (- 1074) 1023 S M 0 = Fin S M 0"
    using b by (simp add: round_fp_def drop_bits_def)
  have r24: "round_fp 24 (- 149) 127 S M 0 = Fin S M 0"
    using b by (simp add: round_fp_def drop_bits_def)
  from False have "round_double False (n - 3) 0 = round_fp 53 (- 1074) 1023 S M 0"
    by (simp add: round_double_def S_def M_def)
  then have "dminus (Num n) (Num 3) = Fin S M 0"
    by (simp only: dminus_Num_3 r53)
  then have "fminus (Num n) (Num 3) = canon (Fin S M 0)"
    by (simp only: fminus_def to_float.simps r24)
  also have "canon (Fin S M 0) = Num (n - 3)"
    by (simp only: Num_def S_def M_def)
  finally show ?thesis .
qed

text \<open>
  Whatever the operands, the result of the subtraction is a single-precision value in
  canonical form.
\<close>

lemma bit_length_gt: "n < 2 ^ bit_length n"
proof (induction n rule: bit_length.induct)
  case (1 n)
  show ?case
  proof (cases "n = 0")
    case True
    then show ?thesis by simp
  next
    case False
    from "1.IH" [OF False] have "n div 2 < 2 ^ bit_length (n div 2)" .
    then have "n < 2 * 2 ^ bit_length (n div 2)" by linarith
    with False show ?thesis by (simp add: bit_length.simps [of n])
  qed
qed

lemma trim_0: "trim 0 e = (0, 0)"
  by (simp add: trim.simps)

lemma trim_props:
  "trim m e = (m', e') \<Longrightarrow> m \<noteq> 0 \<Longrightarrow>
     odd m' \<and> m' \<le> m \<and> e \<le> e' \<and> int (bit_length m') + e' = int (bit_length m) + e"
proof (induction m e rule: trim.induct)
  case (1 m e)
  show ?case
  proof (cases "even m")
    case True
    from True "1.prems" have t: "trim (m div 2) (e + 1) = (m', e')"
      by (simp add: trim.simps [of m])
    from True "1.prems"(2) have nz: "m div 2 \<noteq> 0" by auto
    from "1.IH" [OF "1.prems"(2) True t nz]
    have "odd m'" "m' \<le> m div 2" "e + 1 \<le> e'"
      "int (bit_length m') + e' = int (bit_length (m div 2)) + (e + 1)"
      by simp_all
    moreover from "1.prems"(2) have "bit_length m = Suc (bit_length (m div 2))"
      by (simp add: bit_length.simps [of m])
    ultimately show ?thesis by simp
  next
    case False
    with "1.prems" show ?thesis by (simp add: trim.simps [of m])
  qed
qed

lemma rne_le: "bit_length m \<le> k + p \<Longrightarrow> rne m k \<le> 2 ^ p"
proof -
  assume "bit_length m \<le> k + p"
  then have "(2::nat) ^ bit_length m \<le> 2 ^ (k + p)" by simp
  with bit_length_gt [of m] have "m < 2 ^ k * 2 ^ p" by (simp add: power_add)
  then have d: "m div 2 ^ k < 2 ^ p"
    by (simp add: less_mult_imp_div_less mult.commute)
  then have "m \<le> 2 ^ p" if "k = 0" using that by simp
  with d show ?thesis by (simp add: rne_def)
qed

lemma is_binary32_canon:
  "m \<le> 2 ^ 24 \<Longrightarrow> - 149 \<le> e \<Longrightarrow> int (bit_length m) + e \<le> 128 \<Longrightarrow>
     is_binary32 (canon (Fin s m e))"
proof (cases "m = 0")
  case True
  then show ?thesis by (simp add: trim_0 is_binary32_def)
next
  case False
  assume m: "m \<le> 2 ^ 24" and e: "- 149 \<le> e" and b: "int (bit_length m) + e \<le> 128"
  obtain m' e' where t: "trim m e = (m', e')" by (cases "trim m e")
  from trim_props [OF t False]
  have o: "odd m'" and le: "m' \<le> m" and e': "e \<le> e'"
    and bl: "int (bit_length m') + e' = int (bit_length m) + e"
    by simp_all
  from o have "m' \<noteq> 2 ^ 24" by auto
  with le m have "m' < 2 ^ 24" by simp
  with o e e' bl b show ?thesis by (simp add: t is_binary32_def)
qed

lemma is_binary32_to_float: "is_binary32 (to_float x)"
proof (cases x)
  case NaN
  then show ?thesis by (simp add: is_binary32_def)
next
  case (Inf s)
  then show ?thesis by (simp add: is_binary32_def)
next
  case (Fin s m e)
  define k where "k = max (int (bit_length m) - int 24) (- 149 - e)"
  obtain m1 e1 where d: "drop_bits m e k = (m1, e1)" by (cases "drop_bits m e k")
  have r: "round_fp 24 (- 149) 127 s m e = pack 127 s (m1, e1)"
    by (simp only: round_fp_def k_def [symmetric] d)
  have m1: "m1 \<le> 2 ^ 24" and e1: "- 149 \<le> e1"
  proof -
    show "m1 \<le> 2 ^ 24"
    proof (cases "k \<le> 0")
      case True
      then have "bit_length m \<le> 24" by (simp add: k_def)
      then have "(2::nat) ^ bit_length m \<le> 2 ^ 24" by (simp del: power_numeral)
      with bit_length_gt [of m] have "m < 2 ^ 24" by linarith
      with True d show ?thesis by (simp add: drop_bits_def)
    next
      case False
      then have "bit_length m \<le> nat k + 24" by (simp add: k_def)
      then have "rne m (nat k) \<le> 2 ^ 24" by (rule rne_le)
      with False d show ?thesis by (simp add: drop_bits_def)
    qed
    show "- 149 \<le> e1"
      using d by (cases "k \<le> 0") (auto simp add: drop_bits_def k_def)
  qed
  show ?thesis
  proof (cases "127 + 1 < int (bit_length m1) + e1")
    case True
    with Fin r show ?thesis by (simp add: is_binary32_def)
  next
    case False
    then have "int (bit_length m1) + e1 \<le> 128" by simp
    from is_binary32_canon [OF m1 e1 this, of s] Fin r False show ?thesis by simp
  qed
qed

lemma is_binary32_fminus: "is_binary32 (fminus a b)"
  by (simp add: fminus_def is_binary32_to_float)

lemma is_binary32_Num: "\<bar>n\<bar> < 2 ^ 24 \<Longrightarrow> is_binary32 (Num n)"
proof -
  assume "\<bar>n\<bar> < 2 ^ 24"
  then have m: "nat \<bar>n\<bar> < 2 ^ 24" by (simp add: nat_less_iff)
  then have "bit_length (nat \<bar>n\<bar>) \<le> 24" by (rule bit_length_le)
  then have "int (bit_length (nat \<bar>n\<bar>)) + 0 \<le> 128" by simp
  moreover from m have "nat \<bar>n\<bar> \<le> 2 ^ 24" by simp
  ultimately show ?thesis unfolding Num_def by (intro is_binary32_canon) simp_all
qed

text \<open>
  The subtraction evaluated at single-precision readings that are not integers: 0.1f,
  0.9f and -1.1f lose low bits, \<open>2 ^ 25 - 3\<close> is a tie and goes to the even neighbour,
  and the infinities and signed zeros behave as IEEE 754 says.
\<close>

lemmas fp_eval = fminus_def Num_def round_fp_def round_double_def drop_bits_def rne_def signed_def
  bit_length.simps trim.simps

lemma fminus_tenth: "fminus (Fin False 13421773 (- 27)) (Num 3) = Fin True 6081741 (- 21)"
  by (simp add: fp_eval)

lemma fminus_nine_tenths: "fminus (Fin False 7549747 (- 23)) (Num 3) = Fin True 4404019 (- 21)"
  by (simp add: fp_eval)

lemma fminus_minus_eleven_tenths:
  "fminus (Fin True 9227469 (- 23)) (Num 3) = Fin True 8598323 (- 21)"
  by (simp add: fp_eval)

lemma fminus_tie_to_even:
  "Num 33554432 = Fin False 1 25 \<and> fminus (Num 33554432) (Num 3) = Num 33554428"
  by (simp add: fp_eval)

lemma fminus_smallest_subnormal: "fminus (Fin False 1 (- 149)) (Num 3) = Num (- 3)"
  by (simp add: fp_eval)

lemma fminus_largest_finite:
  "fminus (Fin True 16777215 104) (Num 3) = Fin True 16777215 104
   \<and> fminus (Fin False 16777215 104) (Fin True 16777215 104) = Inf False"
  by (simp add: fp_eval)

lemma fminus_infinity: "fminus (Inf s) (Num 3) = Inf s"
  by (simp add: fminus_def Num_3)

lemma fminus_signed_zero:
  "fminus (Fin True 0 0) (Fin False 0 0) = Fin True 0 0
   \<and> fminus (Fin False 0 0) (Fin False 0 0) = Fin False 0 0"
  by (simp add: fp_eval)

section \<open>What the report path and the tick do\<close>

text \<open>
  The report path and the tick, characterised field by field: the events appended, the
  two deadlines, the values of the characteristics and the output pins.
\<close>

lemmas effect_defs = emit_def digitalWrite_def write_value_def homekit_characteristic_notify_def
  store_next_report_millis_def store_next_heap_millis_def

lemma report_trace: "trace (my_homekit_report e s) = trace s @ report_events e"
  by (simp add: my_homekit_report_def report_events_def environmental_events_def
      occupancy_events_def sample_def effect_defs Let_def)

lemma report_next_report [simp]:
  "next_report_millis (my_homekit_report e s) = next_report_millis s"
  by (simp add: my_homekit_report_def effect_defs Let_def)

lemma report_next_heap [simp]:
  "next_heap_millis (my_homekit_report e s) = next_heap_millis s"
  by (simp add: my_homekit_report_def effect_defs Let_def)

lemma report_cha_value: "cha_value (my_homekit_report e s) = report_values e (cha_value s)"
  by (simp add: my_homekit_report_def report_values_def sample_def effect_defs Let_def)

lemma report_pin_out:
  "pin_out (my_homekit_report e s) = (pin_out s)(D0 := if occupied (sample e) then HIGH else LOW)"
  by (simp add: my_homekit_report_def sample_def effect_defs Let_def)

lemma loop_trace:
  "trace (my_homekit_loop e s) =
     trace s @ [Call_arduino_homekit_loop, Call_millis]
       @ (if next_report_millis s < millis e
          then Store_next_report_millis (millis e + REPORTING_TIME_MS) # report_events e else [])
       @ (if next_heap_millis s < millis e then heap_events e else [])"
  by (simp add: my_homekit_loop_def heap_events_def report_trace effect_defs Let_def)

lemma tick_events_eq:
  "tick_events e s =
     [Call_arduino_homekit_loop, Call_millis]
       @ (if next_report_millis s < millis e
          then Store_next_report_millis (millis e + REPORTING_TIME_MS) # report_events e else [])
       @ (if next_heap_millis s < millis e then heap_events e else [])"
  by (simp add: tick_events_def events_since_def loop_trace)

lemma loop_next_report:
  "next_report_millis (my_homekit_loop e s) =
     (if next_report_millis s < millis e then millis e + REPORTING_TIME_MS
      else next_report_millis s)"
  by (simp add: my_homekit_loop_def effect_defs Let_def)

lemma loop_next_heap:
  "next_heap_millis (my_homekit_loop e s) =
     (if next_heap_millis s < millis e then millis e + 5000 else next_heap_millis s)"
  by (simp add: my_homekit_loop_def effect_defs Let_def)

lemma loop_cha_value:
  "cha_value (my_homekit_loop e s) =
     (if next_report_millis s < millis e then report_values e (cha_value s) else cha_value s)"
  by (simp add: my_homekit_loop_def effect_defs Let_def report_cha_value)

lemma loop_pin_out:
  "pin_out (my_homekit_loop e s) =
     (if next_report_millis s < millis e
      then (pin_out s)(D0 := if occupied (sample e) then HIGH else LOW) else pin_out s)"
  by (simp add: my_homekit_loop_def effect_defs Let_def report_pin_out)

lemma touches_report_occupancy:
  "filter (touches cha_occupancy_detected) (report_events e) =
     [Write_value cha_occupancy_detected (BoolValue (digitalRead e \<noteq> 0)),
      Notify cha_occupancy_detected (BoolValue (digitalRead e \<noteq> 0))]"
  by (simp add: report_events_def environmental_events_def occupancy_events_def sample_def)

lemma touches_heap [simp]: "filter (touches c) (heap_events e) = []"
  by (simp add: heap_events_def)

section \<open>Invalid readings\<close>

text \<open>
  Claim C1. On a tick whose report deadline has passed, the occupancy characteristic is
  written once and notified once with the boolean of the occupancy pin, whatever the
  sensor returned; and if the temperature or the humidity reading is a not-a-number, no
  event of the tick writes or notifies the temperature or the humidity characteristic,
  and both keep the values they had.
\<close>

theorem invalid_reading_skips_environment_not_occupancy:
  "next_report_millis s < millis e \<Longrightarrow>
     filter (touches cha_occupancy_detected) (tick_events e s) =
       [Write_value cha_occupancy_detected (BoolValue (digitalRead e \<noteq> 0)),
        Notify cha_occupancy_detected (BoolValue (digitalRead e \<noteq> 0))]
     \<and> cha_value (my_homekit_loop e s) cha_occupancy_detected = BoolValue (digitalRead e \<noteq> 0)
     \<and> (isnan (getTemperature e) \<or> isnan (getHumidity e) \<longrightarrow>
          filter (touches cha_temperature) (tick_events e s) = []
          \<and> filter (touches cha_humidity) (tick_events e s) = []
          \<and> cha_value (my_homekit_loop e s) cha_temperature = cha_value s cha_temperature
          \<and> cha_value (my_homekit_loop e s) cha_humidity = cha_value s cha_humidity)"
  by (auto simp add: tick_events_eq touches_report_occupancy loop_cha_value report_values_def
      report_events_def environmental_events_def occupancy_events_def sample_def isnan_fminus Let_def)

theorem invalid_reading_skips_environment_not_occupancy_witness:
  "next_report_millis boot < millis (env_at 1 NaN (Num 20) 1)
   \<and> (isnan (getTemperature (env_at 1 NaN (Num 20) 1))
        \<or> isnan (getHumidity (env_at 1 NaN (Num 20) 1)))
   \<and> filter (touches cha_occupancy_detected) (tick_events (env_at 1 NaN (Num 20) 1) boot) =
       [Write_value cha_occupancy_detected (BoolValue True),
        Notify cha_occupancy_detected (BoolValue True)]
   \<and> filter (touches cha_temperature) (tick_events (env_at 1 NaN (Num 20) 1) boot) = []
   \<and> filter (touches cha_humidity) (tick_events (env_at 1 NaN (Num 20) 1) boot) = []
   \<and> cha_value (my_homekit_loop (env_at 1 NaN (Num 20) 1) boot) cha_temperature
       = FloatValue (Num 0)"
  using invalid_reading_skips_environment_not_occupancy [of boot "env_at 1 NaN (Num 20) 1"]
  by (simp add: boot_def initial_state_def env_at_def example_values_def)

lemma touches_report_temperature:
  "filter (touches cha_temperature) (report_events e) =
     (if isnan (getHumidity e) \<or> isnan (getTemperature e) then []
      else [Write_value cha_temperature (FloatValue (fminus (getTemperature e) (Num 3))),
            Notify cha_temperature (FloatValue (fminus (getTemperature e) (Num 3)))])"
  by (simp add: report_events_def environmental_events_def occupancy_events_def sample_def
      isnan_fminus)

lemma touches_report_humidity:
  "filter (touches cha_humidity) (report_events e) =
     (if isnan (getHumidity e) \<or> isnan (getTemperature e) then []
      else [Write_value cha_humidity (FloatValue (getHumidity e)),
            Notify cha_humidity (FloatValue (getHumidity e))])"
  by (simp add: report_events_def environmental_events_def occupancy_events_def sample_def
      isnan_fminus)

lemma touches_tick:
  "filter (touches c) (tick_events e s) =
     (if next_report_millis s < millis e then filter (touches c) (report_events e) else [])"
  by (simp add: tick_events_eq)

lemma loop_delay_fields:
  "next_report_millis (loop e s) = next_report_millis (my_homekit_loop e s)"
  "next_heap_millis (loop e s) = next_heap_millis (my_homekit_loop e s)"
  "cha_value (loop e s) = cha_value (my_homekit_loop e s)"
  "pin_out (loop e s) = pin_out (my_homekit_loop e s)"
  "trace (loop e s) = trace (my_homekit_loop e s) @ [Call_delay 10]"
  by (simp_all add: loop_def emit_def)

section \<open>Calibration\<close>

text \<open>
  Claim C4, amended. On a tick whose report deadline has passed and on which neither
  reading is a not-a-number, the temperature characteristic is written and notified with
  the raw temperature minus 3.0 as line 117 computes it, that is subtracted in double
  precision and rounded to single precision, and the humidity characteristic with the raw
  humidity itself. The published temperature is a single-precision value. For an integer reading \<open>n\<close> with \<open>\<bar>n - 3\<bar> < 2 ^ 24\<close> the published
  temperature is exactly \<open>n - 3\<close>. The offset does not accumulate: when the next report
  tick reads the same temperature, it publishes the same value again, whatever the
  characteristic held before.
\<close>

theorem calibration_offset_applied_once:
  "next_report_millis s < millis e \<Longrightarrow> \<not> isnan (getTemperature e) \<Longrightarrow>
   \<not> isnan (getHumidity e) \<Longrightarrow>
     filter (touches cha_temperature) (tick_events e s) =
       [Write_value cha_temperature (FloatValue (to_float (dminus (getTemperature e) (Num 3)))),
        Notify cha_temperature (FloatValue (to_float (dminus (getTemperature e) (Num 3))))]
     \<and> filter (touches cha_humidity) (tick_events e s) =
       [Write_value cha_humidity (FloatValue (getHumidity e)),
        Notify cha_humidity (FloatValue (getHumidity e))]
     \<and> cha_value (my_homekit_loop e s) cha_temperature
         = FloatValue (to_float (dminus (getTemperature e) (Num 3)))
     \<and> cha_value (my_homekit_loop e s) cha_humidity = FloatValue (getHumidity e)
     \<and> is_binary32 (to_float (dminus (getTemperature e) (Num 3)))
     \<and> (getTemperature e = Num n \<and> \<bar>n - 3\<bar> < 2 ^ 24 \<longrightarrow>
          cha_value (my_homekit_loop e s) cha_temperature = FloatValue (Num (n - 3)))
     \<and> (next_report_millis (loop e s) < millis e' \<and> getTemperature e' = getTemperature e
          \<and> \<not> isnan (getHumidity e') \<longrightarrow>
          filter (touches cha_temperature) (tick_events e' (loop e s)) =
            [Write_value cha_temperature (FloatValue (to_float (dminus (getTemperature e) (Num 3)))),
             Notify cha_temperature (FloatValue (to_float (dminus (getTemperature e) (Num 3))))]
          \<and> cha_value (my_homekit_loop e' (loop e s)) cha_temperature
              = FloatValue (to_float (dminus (getTemperature e) (Num 3))))"
proof -
  assume fire: "next_report_millis s < millis e"
    and t: "\<not> isnan (getTemperature e)" and h: "\<not> isnan (getHumidity e)"
  have f: "fminus (getTemperature e) (Num 3) = to_float (dminus (getTemperature e) (Num 3))"
    by (simp add: fminus_def)
  have a: "filter (touches cha_temperature) (tick_events e s) =
       [Write_value cha_temperature (FloatValue (to_float (dminus (getTemperature e) (Num 3)))),
        Notify cha_temperature (FloatValue (to_float (dminus (getTemperature e) (Num 3))))]"
    using fire t h by (simp add: touches_tick touches_report_temperature f)
  have b: "filter (touches cha_humidity) (tick_events e s) =
       [Write_value cha_humidity (FloatValue (getHumidity e)),
        Notify cha_humidity (FloatValue (getHumidity e))]"
    using fire t h by (simp add: touches_tick touches_report_humidity)
  have c: "cha_value (my_homekit_loop e s) cha_temperature
         = FloatValue (to_float (dminus (getTemperature e) (Num 3)))"
    "cha_value (my_homekit_loop e s) cha_humidity = FloatValue (getHumidity e)"
    unfolding f [symmetric] using fire t h
    by (simp_all add: loop_cha_value report_values_def sample_def isnan_fminus Let_def)
  have d: "cha_value (my_homekit_loop e s) cha_temperature = FloatValue (Num (n - 3))"
    if "getTemperature e = Num n" "\<bar>n - 3\<bar> < 2 ^ 24"
    using c(1) fminus_integer_exact [OF that(2)] that(1) by (simp add: fminus_def)
  have g: "filter (touches cha_temperature) (tick_events e' (loop e s)) =
            [Write_value cha_temperature (FloatValue (to_float (dminus (getTemperature e) (Num 3)))),
             Notify cha_temperature (FloatValue (to_float (dminus (getTemperature e) (Num 3))))]
          \<and> cha_value (my_homekit_loop e' (loop e s)) cha_temperature
              = FloatValue (to_float (dminus (getTemperature e) (Num 3)))"
    if "next_report_millis (loop e s) < millis e'" "getTemperature e' = getTemperature e"
      "\<not> isnan (getHumidity e')"
    unfolding f [symmetric] using that t
    by (simp add: touches_tick touches_report_temperature loop_cha_value report_values_def
        sample_def isnan_fminus Let_def)
  from a b c d g is_binary32_to_float [of "dminus (getTemperature e) (Num 3)"]
  show ?thesis by blast
qed

theorem calibration_offset_applied_once_witness:
  "next_report_millis boot < millis (env_at 1 (Num 21) (Num 40) 0)
   \<and> \<not> isnan (getTemperature (env_at 1 (Num 21) (Num 40) 0))
   \<and> \<not> isnan (getHumidity (env_at 1 (Num 21) (Num 40) 0))
   \<and> getTemperature (env_at 1 (Num 21) (Num 40) 0) = Num 21
   \<and> \<bar>21 - 3 :: int\<bar> < 2 ^ 24
   \<and> next_report_millis (loop (env_at 1 (Num 21) (Num 40) 0) boot)
       < millis (env_at 2002 (Num 21) (Num 40) 0)
   \<and> getTemperature (env_at 2002 (Num 21) (Num 40) 0)
       = getTemperature (env_at 1 (Num 21) (Num 40) 0)
   \<and> \<not> isnan (getHumidity (env_at 2002 (Num 21) (Num 40) 0))
   \<and> to_float (dminus (Num 21) (Num 3)) = Num 18
   \<and> filter (touches cha_temperature) (tick_events (env_at 1 (Num 21) (Num 40) 0) boot) =
       [Write_value cha_temperature (FloatValue (Num 18)),
        Notify cha_temperature (FloatValue (Num 18))]
   \<and> filter (touches cha_humidity) (tick_events (env_at 1 (Num 21) (Num 40) 0) boot) =
       [Write_value cha_humidity (FloatValue (Num 40)), Notify cha_humidity (FloatValue (Num 40))]
   \<and> cha_value (my_homekit_loop (env_at 1 (Num 21) (Num 40) 0) boot) cha_temperature
       = FloatValue (Num 18)
   \<and> filter (touches cha_temperature)
        (tick_events (env_at 2002 (Num 21) (Num 40) 0) (loop (env_at 1 (Num 21) (Num 40) 0) boot)) =
       [Write_value cha_temperature (FloatValue (Num 18)),
        Notify cha_temperature (FloatValue (Num 18))]"
proof -
  let ?e = "env_at 1 (Num 21) (Num 40) 0" and ?e' = "env_at 2002 (Num 21) (Num 40) 0"
  have h1: "next_report_millis boot < millis ?e"
    by (simp add: boot_def initial_state_def env_at_def)
  have h2: "\<not> isnan (getTemperature ?e)" and h3: "\<not> isnan (getHumidity ?e)"
    and h4: "getTemperature ?e = Num 21" and h6: "getTemperature ?e' = getTemperature ?e"
    and h7: "\<not> isnan (getHumidity ?e')"
    by (simp_all add: env_at_def)
  have h5: "next_report_millis (loop ?e boot) < millis ?e'"
    by (simp add: boot_def initial_state_def env_at_def loop_delay_fields loop_next_report
        REPORTING_TIME_MS_def)
  have x: "to_float (dminus (Num 21) (Num 3)) = Num 18"
    using fminus_integer_exact [of 21] by (simp add: fminus_def)
  note c = calibration_offset_applied_once [OF h1 h2 h3, of 21 ?e']
  from c h5 h6 h7 have
    "filter (touches cha_temperature) (tick_events ?e boot) =
       [Write_value cha_temperature (FloatValue (to_float (dminus (getTemperature ?e) (Num 3)))),
        Notify cha_temperature (FloatValue (to_float (dminus (getTemperature ?e) (Num 3))))]"
    and "filter (touches cha_humidity) (tick_events ?e boot) =
       [Write_value cha_humidity (FloatValue (getHumidity ?e)),
        Notify cha_humidity (FloatValue (getHumidity ?e))]"
    and "cha_value (my_homekit_loop ?e boot) cha_temperature
       = FloatValue (to_float (dminus (getTemperature ?e) (Num 3)))"
    and "filter (touches cha_temperature) (tick_events ?e' (loop ?e boot)) =
       [Write_value cha_temperature (FloatValue (to_float (dminus (getTemperature ?e) (Num 3)))),
        Notify cha_temperature (FloatValue (to_float (dminus (getTemperature ?e) (Num 3))))]"
    by blast+
  with h1 h2 h3 h4 h5 h6 h7 x show ?thesis by (simp add: env_at_def)
qed

text \<open>
  Claim C4 as stated fails for a reading whose difference with 3 is not a
  single-precision value. The reading 0.1f is \<open>13421773 / 2 ^ 27\<close>; minus 3 that is
  \<open>- 389231411 / 2 ^ 27\<close>, which needs 29 bits; the tick publishes the nearest
  single-precision value \<open>- 6081741 / 2 ^ 21\<close>.
\<close>

theorem calibration_rounds_to_single_precision:
  "is_binary32 (Fin False 13421773 (- 27))
   \<and> next_report_millis boot < millis (env_at 1 (Fin False 13421773 (- 27)) (Num 40) 0)
   \<and> cha_value (my_homekit_loop (env_at 1 (Fin False 13421773 (- 27)) (Num 40) 0) boot)
        cha_temperature = FloatValue (Fin True 6081741 (- 21))
   \<and> valof (Fin True 6081741 (- 21)) = - (6081741 / 2097152)
   \<and> valof (Fin False 13421773 (- 27)) - 3 = - (389231411 / 134217728)
   \<and> valof (Fin True 6081741 (- 21)) \<noteq> valof (Fin False 13421773 (- 27)) - 3"
proof -
  have "is_binary32 (Fin False 13421773 (- 27))"
    by (simp add: is_binary32_def bit_length.simps)
  moreover have "cha_value (my_homekit_loop (env_at 1 (Fin False 13421773 (- 27)) (Num 40) 0) boot)
        cha_temperature = FloatValue (Fin True 6081741 (- 21))"
    by (simp add: loop_cha_value report_values_def sample_def boot_def initial_state_def
        env_at_def fminus_tenth Let_def)
  ultimately show ?thesis
    by (simp add: boot_def initial_state_def env_at_def)
qed

section \<open>A tick that only logs\<close>

text \<open>
  Claim C6. On a tick whose diagnostic deadline has passed and whose report deadline has
  not, the events are, after the server poll and the clock read that open every tick,
  exactly the client-count query, the store of the next diagnostic deadline, the free-heap
  query and the log line. None of them reads the sensor or a pin, writes a
  characteristic or notifies; the characteristics, the output pins and the report
  deadline are as before.
\<close>

theorem log_only_tick_leaves_report_path_alone:
  "next_heap_millis s < millis e \<Longrightarrow> \<not> next_report_millis s < millis e \<Longrightarrow>
     tick_events e s =
       [Call_arduino_homekit_loop, Call_millis, Call_connected_clients_count,
        Store_next_heap_millis (millis e + 5 * 1000), Call_getFreeHeap,
        LOG_D ''Free heap: %d, HomeKit clients: %d''
          [ArgU32 (getFreeHeap e), ArgInt (connected_clients_count e)]]
     \<and> filter is_sensor_read (tick_events e s) = []
     \<and> filter is_pin_access (tick_events e s) = []
     \<and> filter is_write (tick_events e s) = []
     \<and> filter is_notify (tick_events e s) = []
     \<and> cha_value (my_homekit_loop e s) = cha_value s
     \<and> pin_out (my_homekit_loop e s) = pin_out s
     \<and> next_report_millis (my_homekit_loop e s) = next_report_millis s"
  by (simp add: tick_events_eq heap_events_def loop_cha_value loop_pin_out loop_next_report)

theorem log_only_tick_leaves_report_path_alone_witness:
  "next_heap_millis (boot\<lparr>next_report_millis := 2001\<rparr>) < millis (env_at 1500 (Num 21) (Num 40) 1)
   \<and> \<not> next_report_millis (boot\<lparr>next_report_millis := 2001\<rparr>)
         < millis (env_at 1500 (Num 21) (Num 40) 1)
   \<and> tick_events (env_at 1500 (Num 21) (Num 40) 1) (boot\<lparr>next_report_millis := 2001\<rparr>) =
       [Call_arduino_homekit_loop, Call_millis, Call_connected_clients_count,
        Store_next_heap_millis 6500, Call_getFreeHeap,
        LOG_D ''Free heap: %d, HomeKit clients: %d'' [ArgU32 40000, ArgInt 1]]
   \<and> next_report_millis
        (my_homekit_loop (env_at 1500 (Num 21) (Num 40) 1) (boot\<lparr>next_report_millis := 2001\<rparr>))
       = 2001"
  using log_only_tick_leaves_report_path_alone
    [of "boot\<lparr>next_report_millis := 2001\<rparr>" "env_at 1500 (Num 21) (Num 40) 1"]
  by (simp add: boot_def initial_state_def env_at_def)

section \<open>Occupancy\<close>

text \<open>
  Claim C7. On a tick whose report deadline has passed, the occupancy pin is read once,
  the output pin D0 is driven HIGH exactly when the value read is non-zero, and the
  occupancy characteristic is written and notified with that same boolean; after the
  tick the characteristic holds true exactly when D0 is HIGH. A tick of any kind keeps
  the two in agreement once they agree.
\<close>

theorem occupancy_mirrors_input_pin:
  "(cha_value s cha_occupancy_detected = BoolValue (pin_out s D0 = HIGH) \<longrightarrow>
      cha_value (my_homekit_loop e s) cha_occupancy_detected
        = BoolValue (pin_out (my_homekit_loop e s) D0 = HIGH))
   \<and> (next_report_millis s < millis e \<longrightarrow>
     filter (touches cha_occupancy_detected) (tick_events e s) =
       [Write_value cha_occupancy_detected (BoolValue (digitalRead e \<noteq> 0)),
        Notify cha_occupancy_detected (BoolValue (digitalRead e \<noteq> 0))]
     \<and> filter is_pin_access (tick_events e s) =
       [Call_digitalRead OCCUPANCY_SENSOR_PIN,
        Call_digitalWrite D0 (if digitalRead e \<noteq> 0 then HIGH else LOW)]
     \<and> cha_value (my_homekit_loop e s) cha_occupancy_detected = BoolValue (digitalRead e \<noteq> 0)
     \<and> pin_out (my_homekit_loop e s) D0 = (if digitalRead e \<noteq> 0 then HIGH else LOW)
     \<and> cha_value (my_homekit_loop e s) cha_occupancy_detected
         = BoolValue (pin_out (my_homekit_loop e s) D0 = HIGH))"
  by (simp add: touches_tick touches_report_occupancy tick_events_eq loop_cha_value loop_pin_out
      report_values_def report_events_def environmental_events_def occupancy_events_def
      heap_events_def sample_def Let_def)

theorem occupancy_mirrors_input_pin_witness:
  "next_report_millis boot < millis (env_at 1 (Num 21) (Num 40) 1)
   \<and> filter (touches cha_occupancy_detected) (tick_events (env_at 1 (Num 21) (Num 40) 1) boot) =
       [Write_value cha_occupancy_detected (BoolValue True),
        Notify cha_occupancy_detected (BoolValue True)]
   \<and> pin_out (my_homekit_loop (env_at 1 (Num 21) (Num 40) 1) boot) D0 = HIGH
   \<and> cha_value boot cha_occupancy_detected = BoolValue (pin_out boot D0 = HIGH)
   \<and> cha_value (my_homekit_loop (env_at 1 (Num 21) (Num 40) 1) boot) cha_occupancy_detected
       = BoolValue (pin_out (my_homekit_loop (env_at 1 (Num 21) (Num 40) 1) boot) D0 = HIGH)"
  using occupancy_mirrors_input_pin [of boot "env_at 1 (Num 21) (Num 40) 1"]
  by (simp add: boot_def initial_state_def env_at_def example_values_def example_pins_def)

section \<open>Determinism of the report path\<close>

text \<open>
  Claim C8. Two runs of the report path whose environments agree on the temperature, the
  humidity and the occupancy pin compute the same reading and add the same events to the
  trace, from whatever states they start (the second may start where the first ended);
  in particular their notify calls carry equal payloads in the same order.
\<close>

theorem report_path_deterministic_in_sensor_state:
  "getTemperature e1 = getTemperature e2 \<Longrightarrow> getHumidity e1 = getHumidity e2 \<Longrightarrow>
   digitalRead e1 = digitalRead e2 \<Longrightarrow>
     sample e1 = sample e2
     \<and> events_since s1 (my_homekit_report e1 s1) = events_since s2 (my_homekit_report e2 s2)
     \<and> filter is_notify (events_since s1 (my_homekit_report e1 s1))
         = filter is_notify (events_since s2 (my_homekit_report e2 s2))"
  by (simp add: events_since_def report_trace report_events_def sample_def)

theorem report_path_deterministic_in_sensor_state_witness:
  "getTemperature (env_at 1 (Num 21) (Num 40) 1) = getTemperature (env_at 7 (Num 21) (Num 40) 1)
   \<and> getHumidity (env_at 1 (Num 21) (Num 40) 1) = getHumidity (env_at 7 (Num 21) (Num 40) 1)
   \<and> digitalRead (env_at 1 (Num 21) (Num 40) 1) = digitalRead (env_at 7 (Num 21) (Num 40) 1)
   \<and> sample (env_at 1 (Num 21) (Num 40) 1) = sample (env_at 7 (Num 21) (Num 40) 1)
   \<and> filter is_notify (events_since boot (my_homekit_report (env_at 1 (Num 21) (Num 40) 1) boot))
       = filter is_notify
           (events_since (my_homekit_report (env_at 1 (Num 21) (Num 40) 1) boot)
              (my_homekit_report (env_at 7 (Num 21) (Num 40) 1)
                 (my_homekit_report (env_at 1 (Num 21) (Num 40) 1) boot)))"
proof -
  have t: "getTemperature (env_at 1 (Num 21) (Num 40) 1)
      = getTemperature (env_at 7 (Num 21) (Num 40) 1)"
    and h: "getHumidity (env_at 1 (Num 21) (Num 40) 1)
      = getHumidity (env_at 7 (Num 21) (Num 40) 1)"
    and p: "digitalRead (env_at 1 (Num 21) (Num 40) 1)
      = digitalRead (env_at 7 (Num 21) (Num 40) 1)"
    by (simp_all add: env_at_def)
  from report_path_deterministic_in_sensor_state
    [OF t h p, of boot "my_homekit_report (env_at 1 (Num 21) (Num 40) 1) boot"] t h p
  show ?thesis by blast
qed

lemma failure_line_in_report:
  "(failure_line \<in> set (report_events e)) =
     (isnan (getHumidity e) \<or> isnan (fminus (getTemperature e) (Num 3)))"
  by (simp add: failure_line_def report_events_def environmental_events_def
      occupancy_events_def sample_def)

lemma failure_line_in_tick:
  "(failure_line \<in> set (tick_events e s)) =
     (next_report_millis s < millis e \<and> failure_line \<in> set (report_events e))"
  by (auto simp add: tick_events_eq failure_line_def heap_events_def)

lemma nan_not_in_report:
  "Write_value cha_temperature (FloatValue NaN) \<notin> set (report_events e)"
  "Notify cha_temperature (FloatValue NaN) \<notin> set (report_events e)"
  by (cases "fminus (getTemperature e) (Num 3)";
      simp add: report_events_def environmental_events_def occupancy_events_def sample_def)+

section \<open>A failed temperature read\<close>

text \<open>
  Claim C10. The skip branch is taken exactly on a report tick where the humidity or the
  temperature after the subtraction of 3.0 is a not-a-number. A not-a-number minus 3.0 is
  a not-a-number, so a report tick whose temperature read failed takes the skip branch:
  it prints the failure line, writes and notifies neither environmental characteristic
  and leaves the temperature characteristic as it was. No tick at all writes or notifies
  a not-a-number temperature.
\<close>

theorem failed_temperature_read_never_published:
  "(failure_line \<in> set (tick_events e s)) =
      (next_report_millis s < millis e
       \<and> (isnan (getHumidity e) \<or> isnan (fminus (getTemperature e) (Num 3))))
   \<and> Write_value cha_temperature (FloatValue NaN) \<notin> set (tick_events e s)
   \<and> Notify cha_temperature (FloatValue NaN) \<notin> set (tick_events e s)
   \<and> (next_report_millis s < millis e \<and> getTemperature e = NaN \<longrightarrow>
        fminus (getTemperature e) (Num 3) = NaN
        \<and> failure_line \<in> set (tick_events e s)
        \<and> filter (touches cha_temperature) (tick_events e s) = []
        \<and> filter (touches cha_humidity) (tick_events e s) = []
        \<and> cha_value (my_homekit_loop e s) cha_temperature = cha_value s cha_temperature)"
proof -
  have a: "(failure_line \<in> set (tick_events e s)) =
      (next_report_millis s < millis e
       \<and> (isnan (getHumidity e) \<or> isnan (fminus (getTemperature e) (Num 3))))"
    by (simp add: failure_line_in_tick failure_line_in_report)
  have w: "Write_value cha_temperature (FloatValue NaN) \<notin> set (tick_events e s)"
    by (simp add: tick_events_eq heap_events_def nan_not_in_report)
  have n: "Notify cha_temperature (FloatValue NaN) \<notin> set (tick_events e s)"
    by (simp add: tick_events_eq heap_events_def nan_not_in_report)
  have c: "next_report_millis s < millis e \<and> getTemperature e = NaN \<longrightarrow>
        fminus (getTemperature e) (Num 3) = NaN
        \<and> failure_line \<in> set (tick_events e s)
        \<and> filter (touches cha_temperature) (tick_events e s) = []
        \<and> filter (touches cha_humidity) (tick_events e s) = []
        \<and> cha_value (my_homekit_loop e s) cha_temperature = cha_value s cha_temperature"
    by (simp add: a touches_tick touches_report_temperature touches_report_humidity
        loop_cha_value report_values_def sample_def Let_def)
  from a w n c show ?thesis by simp
qed

theorem failed_temperature_read_never_published_witness:
  "next_report_millis boot < millis (env_at 1 NaN (Num 20) 1)
   \<and> getTemperature (env_at 1 NaN (Num 20) 1) = NaN
   \<and> failure_line \<in> set (tick_events (env_at 1 NaN (Num 20) 1) boot)
   \<and> filter (touches cha_temperature) (tick_events (env_at 1 NaN (Num 20) 1) boot) = []
   \<and> filter (touches cha_humidity) (tick_events (env_at 1 NaN (Num 20) 1) boot) = []
   \<and> Notify cha_temperature (FloatValue NaN) \<notin> set (tick_events (env_at 1 NaN (Num 20) 1) boot)"
  using failed_temperature_read_never_published [of "env_at 1 NaN (Num 20) 1" boot]
  by (simp add: boot_def initial_state_def env_at_def)

section \<open>Start-up\<close>





section \<open>The report gate\<close>

lemma reports_in_report [simp]: "reports_in (report_events e) = 1"
  by (simp add: reports_in_def report_events_def environmental_events_def occupancy_events_def)

lemma reports_in_tick:
  "reports_in (tick_events e s) = (if next_report_millis s < millis e then 1 else 0)"
  using reports_in_report [of e]
  by (simp add: reports_in_def tick_events_eq heap_events_def)

lemma unat_REPORTING_TIME_MS [simp]: "unat REPORTING_TIME_MS = 2000"
  by (simp add: REPORTING_TIME_MS_def)

lemma no_wrap_add: "no_wrap t \<Longrightarrow> unat (t + REPORTING_TIME_MS) = unat t + 2000"
  by (simp add: no_wrap_def unat_word_ariths)

lemma no_wrap_not_again: "no_wrap t \<Longrightarrow> \<not> t + REPORTING_TIME_MS < t"
  by (simp add: word_less_nat_alt no_wrap_add)

text \<open>
  Claim C2, amended. For every clock value and every state, the report path runs in the
  tick exactly when the clock is strictly above the stored report deadline, and then runs
  once. When it runs, the deadline is set to the clock plus 2000 (modulo \<open>2 ^ 32\<close>), and
  that store comes before every event of the report path. If the clock plus 2000 still
  fits in 32 bits, the gate is closed afterwards: a second tick at the same clock value
  does not run the report path.
\<close>

theorem report_gate_fires_and_advances_deadline:
  "(reports_in (tick_events e s) = 1) = (next_report_millis s < millis e)
   \<and> (reports_in (tick_events e s) = 0) = (\<not> next_report_millis s < millis e)
   \<and> REPORTING_TIME_MS = 2000
   \<and> (next_report_millis s < millis e \<longrightarrow>
        next_report_millis (my_homekit_loop e s) = millis e + REPORTING_TIME_MS
        \<and> tick_events e s =
            [Call_arduino_homekit_loop, Call_millis,
             Store_next_report_millis (millis e + REPORTING_TIME_MS)]
            @ events_since s (my_homekit_report e s)
            @ (if next_heap_millis s < millis e then heap_events e else [])
        \<and> (unat (millis e) + 2000 < 2 ^ 32 \<longrightarrow>
             \<not> next_report_millis (my_homekit_loop e s) < millis e
             \<and> reports_in (tick_events e (my_homekit_loop e s)) = 0))"
proof -
  have a: "(reports_in (tick_events e s) = 1) = (next_report_millis s < millis e)"
    "(reports_in (tick_events e s) = 0) = (\<not> next_report_millis s < millis e)"
    by (simp_all add: reports_in_tick)
  have b: "REPORTING_TIME_MS = 2000"
    by (simp add: REPORTING_TIME_MS_def)
  have c: "tick_events e s =
            [Call_arduino_homekit_loop, Call_millis,
             Store_next_report_millis (millis e + REPORTING_TIME_MS)]
            @ events_since s (my_homekit_report e s)
            @ (if next_heap_millis s < millis e then heap_events e else [])"
    if "next_report_millis s < millis e"
    using that by (simp add: tick_events_eq events_since_def report_trace)
  have d: "\<not> next_report_millis (my_homekit_loop e s) < millis e
      \<and> reports_in (tick_events e (my_homekit_loop e s)) = 0"
    if "next_report_millis s < millis e" "unat (millis e) + 2000 < 2 ^ 32"
  proof -
    from that(2) have "no_wrap (millis e)" by (simp add: no_wrap_def)
    then have "\<not> millis e + REPORTING_TIME_MS < millis e" by (rule no_wrap_not_again)
    with that(1) show ?thesis by (simp add: loop_next_report reports_in_tick)
  qed
  from a b c d show ?thesis by (simp add: loop_next_report)
qed

theorem report_gate_fires_and_advances_deadline_witness:
  "next_report_millis boot < millis (env_at 1 (Num 21) (Num 40) 1)
   \<and> unat (millis (env_at 1 (Num 21) (Num 40) 1)) + 2000 < (2::nat) ^ 32
   \<and> next_report_millis (my_homekit_loop (env_at 1 (Num 21) (Num 40) 1) boot) = 2001
   \<and> reports_in (tick_events (env_at 1 (Num 21) (Num 40) 1) boot) = 1
   \<and> reports_in (tick_events (env_at 1 (Num 21) (Num 40) 1)
        (my_homekit_loop (env_at 1 (Num 21) (Num 40) 1) boot)) = 0"
proof -
  let ?e = "env_at 1 (Num 21) (Num 40) 1"
  have h1: "next_report_millis boot < millis ?e"
    by (simp add: boot_def initial_state_def env_at_def)
  have h2: "unat (millis ?e) + 2000 < (2::nat) ^ 32"
    by (simp add: env_at_def)
  have m: "millis ?e + REPORTING_TIME_MS = 2001"
    by (simp add: env_at_def REPORTING_TIME_MS_def)
  from report_gate_fires_and_advances_deadline [of ?e boot] h1 h2
  have "next_report_millis (my_homekit_loop ?e boot) = millis ?e + REPORTING_TIME_MS"
    and "reports_in (tick_events ?e boot) = 1"
    and "reports_in (tick_events ?e (my_homekit_loop ?e boot)) = 0"
    by blast+
  with h1 h2 m show ?thesis by simp
qed

text \<open>
  Claim C2 as stated fails in the last 2000 ms before the clock wraps: at clock
  4294967295 the new deadline is 1999, which the same clock value still exceeds, so a
  second tick at that clock value runs the report path again.
\<close>

theorem report_gate_refires_when_deadline_wraps:
  "next_report_millis boot < millis (env_at 4294967295 (Num 21) (Num 40) 1)
   \<and> next_report_millis (my_homekit_loop (env_at 4294967295 (Num 21) (Num 40) 1) boot) = 1999
   \<and> next_report_millis (my_homekit_loop (env_at 4294967295 (Num 21) (Num 40) 1) boot)
       < millis (env_at 4294967295 (Num 21) (Num 40) 1)
   \<and> reports_in (tick_events (env_at 4294967295 (Num 21) (Num 40) 1)
        (my_homekit_loop (env_at 4294967295 (Num 21) (Num 40) 1) boot)) = 1"
  by (simp add: reports_in_tick loop_next_report boot_def initial_state_def env_at_def
      REPORTING_TIME_MS_def)

section \<open>Spacing of reports over a run\<close>

lemma report_times_after_deadline:
  "\<forall>e\<in>set es. no_wrap (millis e) \<Longrightarrow> \<forall>x\<in>set (report_times es s). next_report_millis s < x"
proof (induction es arbitrary: s)
  case Nil
  then show ?case by simp
next
  case (Cons e es)
  from Cons.prems have nw: "no_wrap (millis e)" and rest: "\<forall>e\<in>set es. no_wrap (millis e)"
    by simp_all
  note ih = Cons.IH [OF rest, of "loop e s"]
  show ?case
  proof (cases "next_report_millis s < millis e")
    case True
    have "next_report_millis s < x" if "x \<in> set (report_times es (loop e s))" for x
    proof -
      from ih that True have "millis e + REPORTING_TIME_MS < x"
        by (simp add: loop_delay_fields loop_next_report)
      then have "unat (millis e) + 2000 < unat x"
        using no_wrap_add [OF nw] by (simp add: word_less_nat_alt)
      with True show ?thesis by (simp add: word_less_nat_alt)
    qed
    with True show ?thesis by (auto simp add: reports_in_tick)
  next
    case False
    with ih show ?thesis
      by (simp add: reports_in_tick loop_delay_fields loop_next_report)
  qed
qed

lemma report_times_spaced:
  "\<forall>e\<in>set es. no_wrap (millis e) \<Longrightarrow> sorted_wrt spaced (report_times es s)"
proof (induction es arbitrary: s)
  case Nil
  then show ?case by simp
next
  case (Cons e es)
  from Cons.prems have nw: "no_wrap (millis e)" and rest: "\<forall>e\<in>set es. no_wrap (millis e)"
    by simp_all
  have tail: "sorted_wrt spaced (report_times es (loop e s))"
    by (rule Cons.IH [OF rest])
  show ?case
  proof (cases "next_report_millis s < millis e")
    case True
    have "spaced (millis e) x" if "x \<in> set (report_times es (loop e s))" for x
    proof -
      from report_times_after_deadline [OF rest, of "loop e s"] that True
      have "millis e + REPORTING_TIME_MS < x"
        by (simp add: loop_delay_fields loop_next_report)
      then show ?thesis
        using no_wrap_add [OF nw] by (simp add: word_less_nat_alt spaced_def)
    qed
    with True tail show ?thesis by (simp add: reports_in_tick)
  next
    case False
    with tail show ?thesis by (simp add: reports_in_tick)
  qed
qed

text \<open>
  Claim C5, amended. Over any sequence of ticks whose clock values can all take the
  report interval without leaving 32 bits (each is at most 4294965295), started in any
  state, the clock values at which the report path ran are pairwise at least 2000 apart,
  each later one at least 2000 above each earlier one; and no tick, whatever its clock or
  state, runs the report path more than once. The clock need not even be monotonic.
\<close>

theorem reports_spaced_by_interval:
  "\<forall>e\<in>set es. unat (millis e) + 2000 < 2 ^ 32 \<Longrightarrow>
     sorted_wrt spaced (report_times es s) \<and> reports_in (tick_events e' s') \<le> 1"
proof -
  assume "\<forall>e\<in>set es. unat (millis e) + 2000 < 2 ^ 32"
  then have "\<forall>e\<in>set es. no_wrap (millis e)" by (simp add: no_wrap_def)
  then have "sorted_wrt spaced (report_times es s)" by (rule report_times_spaced)
  moreover have "reports_in (tick_events e' s') \<le> 1" by (simp add: reports_in_tick)
  ultimately show ?thesis by simp
qed

lemma report_times_three_ticks: "report_times three_ticks boot = [1, 2002]"
  by (simp add: three_ticks_def reports_in_tick loop_delay_fields loop_next_report
      boot_def initial_state_def env_at_def REPORTING_TIME_MS_def)

theorem reports_spaced_by_interval_witness:
  "list_all (\<lambda>e. unat (millis e) + 2000 < 2 ^ 32) three_ticks
   \<and> map millis three_ticks = [1, 1500, 2002]
   \<and> report_times three_ticks boot = [1, 2002]
   \<and> sorted_wrt spaced (report_times three_ticks boot)
   \<and> spaced 1 2002"
proof -
  have h: "\<forall>e\<in>set three_ticks. unat (millis e) + 2000 < 2 ^ 32"
    by (simp add: three_ticks_def env_at_def)
  have m: "map millis three_ticks = [1, 1500, 2002]"
    by (simp add: three_ticks_def env_at_def)
  from reports_spaced_by_interval [OF h, of boot]
  have s: "sorted_wrt spaced (report_times three_ticks boot)" by simp
  then have "spaced 1 2002" by (simp add: report_times_three_ticks)
  with h m s report_times_three_ticks show ?thesis by (simp add: list_all_iff)
qed

text \<open>
  Claim C5 as stated fails for a clock that increases and does not wrap: a report at
  4294966296 stores the wrapped deadline 1000, and the tick 10 ms later, at 4294966306,
  reports again.
\<close>

theorem reports_bunch_up_when_deadline_wraps:
  "map millis late_ticks = [4294966296, 4294966306]
   \<and> (4294966296 :: 32 word) < 4294966306
   \<and> report_times late_ticks boot = [4294966296, 4294966306]
   \<and> unat (4294966306 :: 32 word) < unat (4294966296 :: 32 word) + 2000
   \<and> \<not> sorted_wrt spaced (report_times late_ticks boot)"
  by (simp add: late_ticks_def reports_in_tick loop_delay_fields loop_next_report
      boot_def initial_state_def env_at_def REPORTING_TIME_MS_def spaced_def)

section \<open>The diagnostic log\<close>

text \<open>
  Claim C3. The sketch defines \<^verbatim>\<open>SHOW_HEAP_MS\<close> as 10000 but stores the clock plus the
  literal 5000 as the next diagnostic deadline. From start-up, the tick at clock 1 logs and
  leaves the deadline at 5001 where the claim expects 10001, and the tick at clock 5002
  logs again.
\<close>

theorem heap_log_deadline_is_5000_not_SHOW_HEAP_MS:
  "next_heap_millis boot < millis (env_at 1 (Num 21) (Num 40) 1)
   \<and> next_heap_millis (my_homekit_loop (env_at 1 (Num 21) (Num 40) 1) boot) = 5001
   \<and> millis (env_at 1 (Num 21) (Num 40) 1) + SHOW_HEAP_MS = 10001
   \<and> filter is_heap_log (tick_events (env_at 1 (Num 21) (Num 40) 1) boot) =
       [LOG_D ''Free heap: %d, HomeKit clients: %d'' [ArgU32 40000, ArgInt 1]]
   \<and> filter is_heap_log
        (tick_events (env_at 5002 (Num 21) (Num 40) 1) (loop (env_at 1 (Num 21) (Num 40) 1) boot)) =
       [LOG_D ''Free heap: %d, HomeKit clients: %d'' [ArgU32 40000, ArgInt 1]]"
  by (simp add: tick_events_eq loop_delay_fields loop_next_report loop_next_heap heap_events_def
      report_events_def environmental_events_def occupancy_events_def sample_def
      boot_def initial_state_def env_at_def REPORTING_TIME_MS_def SHOW_HEAP_MS_def)

end
